theory Spec2Isabelle
  imports Main "HOL-Library.Sublist"
begin

section \<open>Python strings\<close>

text \<open>
  A Python \<open>str\<close> is modelled as a \<open>string\<close> of ASCII characters. The string methods the
  two source files use are written out below; on characters outside ASCII Python's
  \<open>lower\<close>, \<open>strip\<close> and \<open>\d\<close> know more cases than the model, which leaves such
  characters alone.
\<close>

definition DQ :: char where
  "DQ = CHR 0x22"

definition BSL :: char where
  "BSL = CHR 0x5C"

definition NL :: char where
  "NL = CHR 0x0A"

text \<open>\<open>str.lower()\<close>: the letters A to Z move to a to z.\<close>

definition lower_char :: "char \<Rightarrow> char" where
  "lower_char c =
     (case map_of (zip ''ABCDEFGHIJKLMNOPQRSTUVWXYZ'' ''abcdefghijklmnopqrstuvwxyz'') c of
        Some l \<Rightarrow> l
      | None \<Rightarrow> c)"

definition lower :: "string \<Rightarrow> string" where
  "lower s = map lower_char s"

text \<open>The operator \<open>a in b\<close> on two strings: \<open>a\<close> occurs in \<open>b\<close> as a contiguous run.\<close>

fun str_in :: "string \<Rightarrow> string \<Rightarrow> bool" where
  "str_in a [] = (a = [])"
| "str_in a (c # cs) = (prefix a (c # cs) \<or> str_in a cs)"

text \<open>\<open>str.strip()\<close>: the ASCII characters for which \<open>str.isspace\<close> holds are dropped at both ends.\<close>

definition is_space :: "char \<Rightarrow> bool" where
  "is_space c = ((of_char c :: nat) \<in> {9, 10, 11, 12, 13, 28, 29, 30, 31, 32})"

definition strip :: "string \<Rightarrow> string" where
  "strip s = rev (dropWhile is_space (rev (dropWhile is_space s)))"

text \<open>\<open>sep.join(xs)\<close>.\<close>

fun join :: "string \<Rightarrow> string list \<Rightarrow> string" where
  "join sep [] = []"
| "join sep [x] = x"
| "join sep (x # y # ys) = x @ sep @ join sep (y # ys)"

text \<open>\<open>s.replace(old, new)\<close> for a one-character \<open>old\<close>, the only use the source makes of it.\<close>

definition replace :: "char \<Rightarrow> string \<Rightarrow> string \<Rightarrow> string" where
  "replace old new s = concat (map (\<lambda>c. if c = old then new else [c]) s)"

text \<open>\<open>str(n)\<close> and the f-string rendering of an integer.\<close>

definition digit_char :: "nat \<Rightarrow> char" where
  "digit_char d = ''0123456789'' ! d"

function str_nat :: "nat \<Rightarrow> string" where
  "str_nat n = (if n < 10 then [digit_char n] else str_nat (n div 10) @ [digit_char (n mod 10)])"
  by pat_completeness auto
termination
  by (relation "measure (\<lambda>n. n)") auto

declare str_nat.simps [simp del]

definition str_int :: "int \<Rightarrow> string" where
  "str_int i = (if i < 0 then CHR ''-'' # str_nat (nat (- i)) else str_nat (nat i))"

section \<open>linear_operations.py: priorities, escaping, date validation\<close>

text \<open>
  \<open>PRIORITY_MAP\<close> is the dict literal, in the order it is written. \<open>PRIORITY_DISPLAY\<close> is
  the comprehension \<open>{v: k for k, v in PRIORITY_MAP.items()}\<close>: the items are stored one
  after the other, a later item replacing an earlier one under the same key.
\<close>

definition PRIORITY_MAP :: "(string \<times> int) list" where
  "PRIORITY_MAP = [(''urgent'', 1), (''high'', 2), (''medium'', 3), (''low'', 4), (''none'', 0)]"

definition PRIORITY_DISPLAY :: "int \<rightharpoonup> string" where
  "PRIORITY_DISPLAY = foldl (\<lambda>m (k, v). m(v \<mapsto> k)) Map.empty PRIORITY_MAP"

text \<open>\<open>PRIORITY_MAP.get(priority.lower(), 0)\<close>, as create, update and list compute it.\<close>

definition priority_value :: "string \<Rightarrow> int" where
  "priority_value priority =
     (case map_of PRIORITY_MAP (lower priority) of Some v \<Rightarrow> v | None \<Rightarrow> 0)"

text \<open>
  \<open>PRIORITY_DISPLAY.get(issue.get("priority"), "none")\<close>, as update, list and get compute
  it. The priority is \<open>None\<close> when the reply has no priority for the issue.
\<close>

definition priority_display :: "int option \<Rightarrow> string" where
  "priority_display p =
     (case p of None \<Rightarrow> ''none''
      | Some n \<Rightarrow> (case PRIORITY_DISPLAY n of Some l \<Rightarrow> l | None \<Rightarrow> ''none''))"

text \<open>\<open>escape_graphql\<close>: three replacements, one after the other.\<close>

definition escape_graphql :: "string \<Rightarrow> string" where
  "escape_graphql text =
     replace NL [BSL, CHR ''n''] (replace DQ [BSL, DQ] (replace BSL [BSL, BSL] text))"

text \<open>
  \<open>validate_date\<close> matches the pattern \<open>^\d{4}-\d{2}-\d{2}$\<close> with \<open>re.match\<close>. The
  matcher below reads the pattern left to right: \<open>digits n\<close> is \<open>\d{n}\<close>, \<open>dash\<close> is the
  literal dash, and \<open>at_end\<close> is \<open>$\<close>, which (without \<open>re.MULTILINE\<close>) matches at the end
  of the string and also just before a newline that ends the string.
\<close>

definition is_digit :: "char \<Rightarrow> bool" where
  "is_digit c = (48 \<le> (of_char c :: nat) \<and> (of_char c :: nat) \<le> 57)"

fun digits :: "nat \<Rightarrow> string \<Rightarrow> string option" where
  "digits 0 s = Some s"
| "digits (Suc n) [] = None"
| "digits (Suc n) (c # cs) = (if is_digit c then digits n cs else None)"

fun dash :: "string \<Rightarrow> string option" where
  "dash [] = None"
| "dash (c # cs) = (if c = CHR ''-'' then Some cs else None)"

definition at_end :: "string \<Rightarrow> bool" where
  "at_end s = (s = [] \<or> s = [NL])"

definition validate_date :: "string \<Rightarrow> bool" where
  "validate_date date_str =
     (case Option.bind (Option.bind (Option.bind (Option.bind (digits 4 date_str) dash)
             (digits 2)) dash) (digits 2)
      of None \<Rightarrow> False | Some rest \<Rightarrow> at_end rest)"

text \<open>The shape the documentation names, \<open>YYYY-MM-DD\<close>: ten characters, digits and two dashes.\<close>

definition date_shape :: "string \<Rightarrow> bool" where
  "date_shape s =
     (case s of
        [y1, y2, y3, y4, d1, m1, m2, d2, n1, n2] \<Rightarrow>
          is_digit y1 \<and> is_digit y2 \<and> is_digit y3 \<and> is_digit y4 \<and> d1 = CHR ''-'' \<and>
          is_digit m1 \<and> is_digit m2 \<and> d2 = CHR ''-'' \<and> is_digit n1 \<and> is_digit n2
      | _ \<Rightarrow> False)"

section \<open>The process and the remote service\<close>

text \<open>
  A run of either script ends in one of three ways: the function returns, \<open>sys.exit(n)\<close>
  is called, or a Python exception nobody catches ends the interpreter (which also gives
  exit status 1).
\<close>

datatype exn = KeyError

datatype 'a outcome = Return 'a | Exit nat | Raise exn

text \<open>The documents the scripts hand to \<open>json.dumps\<close>; a dict keeps its insertion order.\<close>

datatype json =
    JNull
  | JBool bool
  | JInt int
  | JStr string
  | JArr "json list"
  | JObj "(string \<times> json) list"

text \<open>
  What the service returns is typed after the selection sets of the queries. A field the
  source reads with \<open>.get\<close> is optional (\<open>None\<close>: the key is absent); a collection read
  with \<open>.get("nodes", [])\<close> is a list (empty when absent); a field of a nested node that
  the source only ever subscripts is mandatory. A subscript on an optional field of an
  issue raises \<open>KeyError\<close> when the key is absent.
\<close>

record node =
  node_id :: string
  node_name :: string

record user =
  user_id :: string
  user_name :: string
  user_email :: "string option"
  user_active :: bool

record parent_ref =
  parent_identifier :: string
  parent_title :: string

record child =
  child_identifier :: string
  child_title :: string
  child_state :: "string option"

record comment =
  comment_id :: "string option"
  comment_body :: "string option"
  comment_createdAt :: "string option"
  comment_author :: "string option"

record issue =
  iss_id :: "string option"
  iss_identifier :: "string option"
  iss_title :: "string option"
  iss_description :: "string option"
  iss_priority :: "int option"
  iss_dueDate :: "string option"
  iss_state :: "string option"
  iss_project :: "string option"
  iss_assignee :: "string option"
  iss_labels :: "node list"
  iss_parent :: "parent_ref option"
  iss_children :: "child list"
  iss_comments :: "comment list"
  iss_url :: "string option"
  iss_createdAt :: "string option"
  iss_updatedAt :: "string option"

text \<open>The empty dict \<open>{}\<close> read as an issue.\<close>

definition empty_issue :: issue where
  "empty_issue =
     \<lparr>iss_id = None, iss_identifier = None, iss_title = None, iss_description = None,
      iss_priority = None, iss_dueDate = None, iss_state = None, iss_project = None,
      iss_assignee = None, iss_labels = [], iss_parent = None, iss_children = [],
      iss_comments = [], iss_url = None, iss_createdAt = None, iss_updatedAt = None\<rparr>"

record team =
  team_states :: "node list"
  team_projects :: "node list"
  team_labels :: "node list"
  team_issues :: "issue list"

record mutation_result =
  success :: bool
  result_issue :: "issue option"

record comment_result =
  comment_success :: bool
  result_comment :: "comment option"

text \<open>The \<open>data\<close> object of a reply: every query of the scripts has one root field.\<close>

datatype data =
    Empty
  | Team team
  | Users "user list"
  | Issue "issue option"
  | IssueCreate mutation_result
  | IssueUpdate mutation_result
  | CommentCreate comment_result
  | IssueArchive bool

text \<open>
  An entry of the \<open>errors\<close> list: its \<open>message\<close>, when it has one, and the text \<open>str(e)\<close>
  gives for it.
\<close>

record gql_error =
  message :: "string option"
  rendered :: string

record payload =
  errors :: "gql_error list option"
  payload_data :: "data option"

text \<open>
  \<open>urlopen\<close> returns a reply whose body parses as JSON, or raises \<open>HTTPError\<close> (status
  code and reason) or another \<open>URLError\<close> (reason).
\<close>

datatype http_result =
    Response payload
  | HTTPError int string
  | URLError string

text \<open>A POST to the fixed endpoint: the \<open>Authorization\<close> header and the query sent.\<close>

record request =
  req_authorization :: string
  req_query :: string

record credentials =
  cred_api_key :: string
  cred_team_id :: string

text \<open>
  The world a run sees and changes: the home directory, the credentials file there
  (\<open>None\<close>: it does not exist), the service (its reply to the last request of a list, given
  the earlier ones), the requests sent so far and the two output streams (standard error
  by line, standard output by document).
\<close>

record world =
  home :: string
  credentials_file :: "credentials option"
  service :: "request list \<Rightarrow> http_result"
  sent :: "request list"
  stdout :: "json list"
  stderr :: "string list"

type_synonym 'a io = "world \<Rightarrow> 'a outcome \<times> world"

definition io_return :: "'a \<Rightarrow> 'a io" where
  "io_return x w = (Return x, w)"

definition io_bind :: "'a io \<Rightarrow> ('a \<Rightarrow> 'b io) \<Rightarrow> 'b io" where
  "io_bind m f w =
     (case m w of
        (Return x, w') \<Rightarrow> f x w'
      | (Exit c, w') \<Rightarrow> (Exit c, w')
      | (Raise e, w') \<Rightarrow> (Raise e, w'))"

definition io_seq :: "unit io \<Rightarrow> 'b io \<Rightarrow> 'b io" where
  "io_seq m n = io_bind m (\<lambda>_. n)"

fun io_chain :: "('a \<Rightarrow> 'a io) list \<Rightarrow> 'a \<Rightarrow> 'a io" where
  "io_chain [] x = io_return x"
| "io_chain (f # fs) x = io_bind (f x) (io_chain fs)"

definition sys_exit :: "nat \<Rightarrow> 'a io" where
  "sys_exit c w = (Exit c, w)"

definition io_raise :: "exn \<Rightarrow> 'a io" where
  "io_raise e w = (Raise e, w)"

definition print_err :: "string \<Rightarrow> unit io" where
  "print_err line w = (Return (), w\<lparr>stderr := stderr w @ [line]\<rparr>)"

definition print_out :: "json \<Rightarrow> unit io" where
  "print_out doc w = (Return (), w\<lparr>stdout := stdout w @ [doc]\<rparr>)"

text \<open>\<open>d[key]\<close> on a key the reply may lack.\<close>

definition subscript :: "'a option \<Rightarrow> 'a io" where
  "subscript v = (case v of None \<Rightarrow> io_raise KeyError | Some x \<Rightarrow> io_return x)"

text \<open>The truth value of an optional string or list: \<open>None\<close> and the empty value are false.\<close>

definition truthy :: "'a list option \<Rightarrow> bool" where
  "truthy v = (case v of None \<Rightarrow> False | Some x \<Rightarrow> x \<noteq> [])"

definition SQ :: char where
  "SQ = CHR 0x27"

section \<open>linear_client.py\<close>

definition CREDENTIALS_FILE :: "world \<Rightarrow> string" where
  "CREDENTIALS_FILE w = home w @ ''/.linear_api/estatemate-product-credentials.json''"

definition setup_instructions :: "world \<Rightarrow> string list" where
  \<open>setup_instructions w =
     [''CREDENTIALS_MISSING'',
      ''Create file at '' @ CREDENTIALS_FILE w @ '' with:'',
      ''{"api_key": "lin_api_...", "team_id": "...", "team_key": "EST2"}'',
      [],
      ''To get your API key:'',
      ''  1. Go to Linear > Settings > API > Personal API keys'',
      ''  2. Create a new key with a label like '' @ [SQ] @ ''CLI scripts'' @ [SQ],
      ''  3. Copy the key (starts with lin_api_)'',
      [],
      ''To get your team_id:'',
      ''  Run: python3 linear_client.py --teams'',
      ''  (requires api_key to be set, team_id can be placeholder)'']\<close>

definition load_credentials :: "credentials io" where
  "load_credentials w =
     (case credentials_file w of
        None \<Rightarrow> (Exit 1, w\<lparr>stderr := stderr w @ setup_instructions w\<rparr>)
      | Some creds \<Rightarrow> (Return creds, w))"

text \<open>Of the two headers only \<open>Authorization\<close> varies; \<open>get_headers\<close> returns its value.\<close>

definition get_headers :: "string io" where
  "get_headers = io_bind load_credentials (\<lambda>creds. io_return (cred_api_key creds))"

definition urlopen :: "request \<Rightarrow> http_result io" where
  "urlopen req w = (Return (service w (sent w @ [req])), w\<lparr>sent := sent w @ [req]\<rparr>)"

definition error_msg :: "gql_error \<Rightarrow> string" where
  "error_msg e = (case message e of Some m \<Rightarrow> m | None \<Rightarrow> rendered e)"

text \<open>
  \<open>execute_query\<close>, called without variables, as every caller in the repository does. The
  \<open>except\<close> clauses are the cases of the reply, in the source's order.
\<close>

definition execute_query :: "string \<Rightarrow> data io" where
  "execute_query query =
     io_bind get_headers (\<lambda>headers.
     io_bind (urlopen \<lparr>req_authorization = headers, req_query = query\<rparr>) (\<lambda>reply.
       case reply of
         HTTPError code reason \<Rightarrow>
           if code = 401 then
             io_seq (print_err ''AUTH_ERROR: Invalid or expired API key'')
            (io_seq (print_err
                 ''Check your API key at: Linear > Settings > API > Personal API keys'')
            (sys_exit 1))
           else if code = 429 then
             io_seq (print_err ''RATE_LIMITED: Too many requests - wait a moment and try again'')
            (sys_exit 1)
           else
             io_seq (print_err (''HTTP_ERROR: '' @ str_int code @ '' '' @ reason))
            (sys_exit 1)
       | URLError reason \<Rightarrow>
           io_seq (print_err (''NETWORK_ERROR: <urlopen error '' @ reason @ ''>''))
          (sys_exit 1)
       | Response result \<Rightarrow>
           (case errors result of
              Some es \<Rightarrow>
                io_seq (print_err (''GRAPHQL_ERROR: '' @ join ''; '' (map error_msg es)))
               (sys_exit 1)
            | None \<Rightarrow>
                io_return (case payload_data result of None \<Rightarrow> Empty | Some d \<Rightarrow> d))))"

definition get_team_id :: "string io" where
  "get_team_id = io_bind load_credentials (\<lambda>creds. io_return (cred_team_id creds))"

text \<open>
  The request \<open>execute_query\<close> builds from the credentials and a query, the service's
  reply to it in a world, and the world once that one request has been sent.
\<close>

definition request_of :: "credentials \<Rightarrow> string \<Rightarrow> request" where
  "request_of c q = \<lparr>req_authorization = cred_api_key c, req_query = q\<rparr>"

definition reply :: "credentials \<Rightarrow> string \<Rightarrow> world \<Rightarrow> http_result" where
  "reply c q w = service w (sent w @ [request_of c q])"

definition post :: "credentials \<Rightarrow> string \<Rightarrow> world \<Rightarrow> world" where
  "post c q w = w\<lparr>sent := sent w @ [request_of c q]\<rparr>"

section \<open>linear_operations.py: the query and mutation texts\<close>

text \<open>
  Each definition below is one triple-quoted string of the source, line by line, with the
  f-string's placeholders as parameters. \<open>limit\<close> is passed already rendered.
\<close>

definition states_query :: "string \<Rightarrow> string" where
  \<open>states_query team_id =
     ''\<newline>'' @
     ''    {\<newline>'' @
     ''        team(id: "'' @ team_id @ ''") {\<newline>'' @
     ''            states {\<newline>'' @
     ''                nodes {\<newline>'' @
     ''                    id\<newline>'' @
     ''                    name\<newline>'' @
     ''                    type\<newline>'' @
     ''                }\<newline>'' @
     ''            }\<newline>'' @
     ''        }\<newline>'' @
     ''    }\<newline>'' @
     ''    ''\<close>

definition projects_query :: "string \<Rightarrow> string" where
  \<open>projects_query team_id =
     ''\<newline>'' @
     ''    {\<newline>'' @
     ''        team(id: "'' @ team_id @ ''") {\<newline>'' @
     ''            projects {\<newline>'' @
     ''                nodes {\<newline>'' @
     ''                    id\<newline>'' @
     ''                    name\<newline>'' @
     ''                    state\<newline>'' @
     ''                }\<newline>'' @
     ''            }\<newline>'' @
     ''        }\<newline>'' @
     ''    }\<newline>'' @
     ''    ''\<close>

definition labels_query :: "string \<Rightarrow> string" where
  \<open>labels_query team_id =
     ''\<newline>'' @
     ''    {\<newline>'' @
     ''        team(id: "'' @ team_id @ ''") {\<newline>'' @
     ''            labels {\<newline>'' @
     ''                nodes {\<newline>'' @
     ''                    id\<newline>'' @
     ''                    name\<newline>'' @
     ''                    color\<newline>'' @
     ''                }\<newline>'' @
     ''            }\<newline>'' @
     ''        }\<newline>'' @
     ''    }\<newline>'' @
     ''    ''\<close>

definition users_query :: "string" where
  \<open>users_query =
     ''\<newline>'' @
     ''    {\<newline>'' @
     ''        users {\<newline>'' @
     ''            nodes {\<newline>'' @
     ''                id\<newline>'' @
     ''                name\<newline>'' @
     ''                email\<newline>'' @
     ''                active\<newline>'' @
     ''            }\<newline>'' @
     ''        }\<newline>'' @
     ''    }\<newline>'' @
     ''    ''\<close>

definition issue_id_query :: "string \<Rightarrow> string" where
  \<open>issue_id_query identifier =
     ''\<newline>'' @
     ''    {\<newline>'' @
     ''        issue(id: "'' @ identifier @ ''") {\<newline>'' @
     ''            id\<newline>'' @
     ''        }\<newline>'' @
     ''    }\<newline>'' @
     ''    ''\<close>

definition issue_with_labels_query :: "string \<Rightarrow> string" where
  \<open>issue_with_labels_query identifier =
     ''\<newline>'' @
     ''    {\<newline>'' @
     ''        issue(id: "'' @ identifier @ ''") {\<newline>'' @
     ''            id\<newline>'' @
     ''            identifier\<newline>'' @
     ''            labels {\<newline>'' @
     ''                nodes {\<newline>'' @
     ''                    id\<newline>'' @
     ''                    name\<newline>'' @
     ''                }\<newline>'' @
     ''            }\<newline>'' @
     ''        }\<newline>'' @
     ''    }\<newline>'' @
     ''    ''\<close>

definition create_mutation :: "string \<Rightarrow> string" where
  \<open>create_mutation input_str =
     ''\<newline>'' @
     ''    mutation {\<newline>'' @
     ''        issueCreate(input: {'' @ input_str @ ''}) {\<newline>'' @
     ''            success\<newline>'' @
     ''            issue {\<newline>'' @
     ''                id\<newline>'' @
     ''                identifier\<newline>'' @
     ''                title\<newline>'' @
     ''                url\<newline>'' @
     ''                parent {\<newline>'' @
     ''                    identifier\<newline>'' @
     ''                }\<newline>'' @
     ''                labels {\<newline>'' @
     ''                    nodes {\<newline>'' @
     ''                        name\<newline>'' @
     ''                    }\<newline>'' @
     ''                }\<newline>'' @
     ''                dueDate\<newline>'' @
     ''                assignee {\<newline>'' @
     ''                    name\<newline>'' @
     ''                }\<newline>'' @
     ''            }\<newline>'' @
     ''        }\<newline>'' @
     ''    }\<newline>'' @
     ''    ''\<close>

definition update_mutation :: "string \<Rightarrow> string \<Rightarrow> string" where
  \<open>update_mutation issue_id input_str =
     ''\<newline>'' @
     ''    mutation {\<newline>'' @
     ''        issueUpdate(id: "'' @ issue_id @ ''", input: {'' @ input_str @ ''}) {\<newline>'' @
     ''            success\<newline>'' @
     ''            issue {\<newline>'' @
     ''                id\<newline>'' @
     ''                identifier\<newline>'' @
     ''                title\<newline>'' @
     ''                state {\<newline>'' @
     ''                    name\<newline>'' @
     ''                }\<newline>'' @
     ''                priority\<newline>'' @
     ''                url\<newline>'' @
     ''                parent {\<newline>'' @
     ''                    identifier\<newline>'' @
     ''                }\<newline>'' @
     ''                project {\<newline>'' @
     ''                    name\<newline>'' @
     ''                }\<newline>'' @
     ''                labels {\<newline>'' @
     ''                    nodes {\<newline>'' @
     ''                        name\<newline>'' @
     ''                    }\<newline>'' @
     ''                }\<newline>'' @
     ''                dueDate\<newline>'' @
     ''                assignee {\<newline>'' @
     ''                    name\<newline>'' @
     ''                }\<newline>'' @
     ''            }\<newline>'' @
     ''        }\<newline>'' @
     ''    }\<newline>'' @
     ''    ''\<close>

definition list_query :: "string \<Rightarrow> string \<Rightarrow> string \<Rightarrow> string" where
  \<open>list_query team_id limit filter_clause =
     ''\<newline>'' @
     ''    {\<newline>'' @
     ''        team(id: "'' @ team_id @ ''") {\<newline>'' @
     ''            issues(first: '' @ limit @ '', orderBy: updatedAt'' @ filter_clause @ '') {\<newline>'' @
     ''                nodes {\<newline>'' @
     ''                    identifier\<newline>'' @
     ''                    title\<newline>'' @
     ''                    priority\<newline>'' @
     ''                    dueDate\<newline>'' @
     ''                    state {\<newline>'' @
     ''                        name\<newline>'' @
     ''                    }\<newline>'' @
     ''                    project {\<newline>'' @
     ''                        name\<newline>'' @
     ''                    }\<newline>'' @
     ''                    assignee {\<newline>'' @
     ''                        name\<newline>'' @
     ''                    }\<newline>'' @
     ''                    labels {\<newline>'' @
     ''                        nodes {\<newline>'' @
     ''                            name\<newline>'' @
     ''                        }\<newline>'' @
     ''                    }\<newline>'' @
     ''                    parent {\<newline>'' @
     ''                        identifier\<newline>'' @
     ''                    }\<newline>'' @
     ''                    url\<newline>'' @
     ''                }\<newline>'' @
     ''            }\<newline>'' @
     ''        }\<newline>'' @
     ''    }\<newline>'' @
     ''    ''\<close>

definition add_labels_mutation :: "string \<Rightarrow> string \<Rightarrow> string" where
  \<open>add_labels_mutation issue_id ids_str =
     ''\<newline>'' @
     ''    mutation {\<newline>'' @
     ''        issueUpdate(id: "'' @ issue_id @ ''", input: {labelIds: ['' @ ids_str @ '']}) {\<newline>'' @
     ''            success\<newline>'' @
     ''            issue {\<newline>'' @
     ''                identifier\<newline>'' @
     ''                labels {\<newline>'' @
     ''                    nodes {\<newline>'' @
     ''                        name\<newline>'' @
     ''                    }\<newline>'' @
     ''                }\<newline>'' @
     ''            }\<newline>'' @
     ''        }\<newline>'' @
     ''    }\<newline>'' @
     ''    ''\<close>

definition remove_labels_mutation :: "string \<Rightarrow> string \<Rightarrow> string" where
  \<open>remove_labels_mutation issue_id ids_str =
     ''\<newline>'' @
     ''    mutation {\<newline>'' @
     ''        issueUpdate(id: "'' @ issue_id @ ''", input: {labelIds: ['' @ ids_str @ '']}) {\<newline>'' @
     ''            success\<newline>'' @
     ''            issue {\<newline>'' @
     ''                identifier\<newline>'' @
     ''                labels {\<newline>'' @
     ''                    nodes {\<newline>'' @
     ''                        name\<newline>'' @
     ''                    }\<newline>'' @
     ''                }\<newline>'' @
     ''            }\<newline>'' @
     ''        }\<newline>'' @
     ''    }\<newline>'' @
     ''    ''\<close>

definition comment_mutation :: "string \<Rightarrow> string \<Rightarrow> string" where
  \<open>comment_mutation issue_id body_escaped =
     ''\<newline>'' @
     ''    mutation {\<newline>'' @
     ''        commentCreate(input: {issueId: "'' @ issue_id @ ''", body: "'' @ body_escaped @ ''"}) {\<newline>'' @
     ''            success\<newline>'' @
     ''            comment {\<newline>'' @
     ''                id\<newline>'' @
     ''                body\<newline>'' @
     ''                createdAt\<newline>'' @
     ''            }\<newline>'' @
     ''        }\<newline>'' @
     ''    }\<newline>'' @
     ''    ''\<close>

definition archive_mutation :: "string \<Rightarrow> string" where
  \<open>archive_mutation issue_id =
     ''\<newline>'' @
     ''    mutation {\<newline>'' @
     ''        issueArchive(id: "'' @ issue_id @ ''") {\<newline>'' @
     ''            success\<newline>'' @
     ''        }\<newline>'' @
     ''    }\<newline>'' @
     ''    ''\<close>

definition issue_detail_query :: "string \<Rightarrow> string" where
  \<open>issue_detail_query identifier =
     ''\<newline>'' @
     ''    {\<newline>'' @
     ''        issue(id: "'' @ identifier @ ''") {\<newline>'' @
     ''            id\<newline>'' @
     ''            identifier\<newline>'' @
     ''            title\<newline>'' @
     ''            description\<newline>'' @
     ''            priority\<newline>'' @
     ''            dueDate\<newline>'' @
     ''            state {\<newline>'' @
     ''                name\<newline>'' @
     ''                type\<newline>'' @
     ''            }\<newline>'' @
     ''            project {\<newline>'' @
     ''                name\<newline>'' @
     ''            }\<newline>'' @
     ''            parent {\<newline>'' @
     ''                identifier\<newline>'' @
     ''                title\<newline>'' @
     ''            }\<newline>'' @
     ''            children {\<newline>'' @
     ''                nodes {\<newline>'' @
     ''                    identifier\<newline>'' @
     ''                    title\<newline>'' @
     ''                    state {\<newline>'' @
     ''                        name\<newline>'' @
     ''                    }\<newline>'' @
     ''                }\<newline>'' @
     ''            }\<newline>'' @
     ''            assignee {\<newline>'' @
     ''                name\<newline>'' @
     ''                email\<newline>'' @
     ''            }\<newline>'' @
     ''            labels {\<newline>'' @
     ''                nodes {\<newline>'' @
     ''                    id\<newline>'' @
     ''                    name\<newline>'' @
     ''                    color\<newline>'' @
     ''                }\<newline>'' @
     ''            }\<newline>'' @
     ''            comments {\<newline>'' @
     ''                nodes {\<newline>'' @
     ''                    body\<newline>'' @
     ''                    createdAt\<newline>'' @
     ''                    user {\<newline>'' @
     ''                        name\<newline>'' @
     ''                    }\<newline>'' @
     ''                }\<newline>'' @
     ''            }\<newline>'' @
     ''            url\<newline>'' @
     ''            createdAt\<newline>'' @
     ''            updatedAt\<newline>'' @
     ''        }\<newline>'' @
     ''    }\<newline>'' @
     ''    ''\<close>

section \<open>linear_operations.py: name resolution\<close>

text \<open>
  A loop \<open>for x in xs: if P(x): return ...\<close> takes the first element of the list that
  satisfies the test, which is \<open>find\<close>; the code after the loop runs when there is none.
\<close>

definition get_workflow_states :: "node list io" where
  "get_workflow_states =
     io_bind get_team_id (\<lambda>team_id.
     io_bind (execute_query (states_query team_id)) (\<lambda>result.
     io_return (case result of Team t \<Rightarrow> team_states t | _ \<Rightarrow> [])))"

definition get_state_id :: "string \<Rightarrow> string io" where
  "get_state_id status_name =
     io_bind get_workflow_states (\<lambda>states.
     case find (\<lambda>state. str_in (lower status_name) (lower (node_name state))) states of
       Some state \<Rightarrow> io_return (node_id state)
     | None \<Rightarrow>
         io_seq (print_err (''ERROR: Status '' @ [SQ] @ status_name @ [SQ] @
                   '' not found. Available: '' @ join '', '' (map node_name states)))
        (sys_exit 1))"

definition get_projects :: "node list io" where
  "get_projects =
     io_bind get_team_id (\<lambda>team_id.
     io_bind (execute_query (projects_query team_id)) (\<lambda>result.
     io_return (case result of Team t \<Rightarrow> team_projects t | _ \<Rightarrow> [])))"

definition get_project_id :: "string \<Rightarrow> string io" where
  "get_project_id project_name =
     io_bind get_projects (\<lambda>projects.
     case find (\<lambda>project. str_in (lower project_name) (lower (node_name project))) projects of
       Some project \<Rightarrow> io_return (node_id project)
     | None \<Rightarrow>
         io_seq (print_err (''ERROR: Project '' @ [SQ] @ project_name @ [SQ] @
                   '' not found. Available: '' @ join '', '' (map node_name projects)))
        (sys_exit 1))"

definition get_labels :: "node list io" where
  "get_labels =
     io_bind get_team_id (\<lambda>team_id.
     io_bind (execute_query (labels_query team_id)) (\<lambda>result.
     io_return (case result of Team t \<Rightarrow> team_labels t | _ \<Rightarrow> [])))"

text \<open>
  The outer loop of \<open>get_label_ids\<close>, with \<open>label_ids\<close> as its accumulator; the inner
  loop with its \<open>break\<close> is again \<open>find\<close>.
\<close>

fun get_label_ids_loop :: "node list \<Rightarrow> string list \<Rightarrow> string list \<Rightarrow> string list io" where
  "get_label_ids_loop labels [] label_ids = io_return label_ids"
| "get_label_ids_loop labels (name # names) label_ids =
     (case find (\<lambda>label. str_in (lower (strip name)) (lower (node_name label))) labels of
        Some label \<Rightarrow> get_label_ids_loop labels names (label_ids @ [node_id label])
      | None \<Rightarrow>
          io_seq (print_err (''ERROR: Label '' @ [SQ] @ name @ [SQ] @
                    '' not found. Available: '' @ join '', '' (map node_name labels)))
         (sys_exit 1))"

definition get_label_ids :: "string list \<Rightarrow> string list io" where
  "get_label_ids label_names =
     io_bind get_labels (\<lambda>labels. get_label_ids_loop labels label_names [])"

definition get_users :: "user list io" where
  "get_users =
     io_bind (execute_query users_query) (\<lambda>result.
     io_return (case result of Users us \<Rightarrow> us | _ \<Rightarrow> []))"

definition get_user_id :: "string \<Rightarrow> string io" where
  "get_user_id user_name' =
     io_bind get_users (\<lambda>users.
     case find (\<lambda>user. user_active user \<and>
                  (str_in (lower user_name') (lower (user_name user)) \<or>
                   str_in (lower user_name')
                     (lower (case user_email user of None \<Rightarrow> [] | Some e \<Rightarrow> e)))) users of
       Some user \<Rightarrow> io_return (user_id user)
     | None \<Rightarrow>
         io_seq (print_err (''ERROR: User '' @ [SQ] @ user_name' @ [SQ] @
                   '' not found. Available: '' @
                   join '', '' (map user_name (filter user_active users))))
        (sys_exit 1))"

text \<open>
  \<open>if not issue\<close> holds for \<open>None\<close> and for the empty dict. The issue is looked up by
  the service under the identifier given; nothing is matched locally.
\<close>

definition result_issue_of :: "data \<Rightarrow> issue option" where
  "result_issue_of result = (case result of Issue i \<Rightarrow> i | _ \<Rightarrow> None)"

definition get_issue_id :: "string \<Rightarrow> string io" where
  "get_issue_id identifier =
     io_bind (execute_query (issue_id_query identifier)) (\<lambda>result.
     case result_issue_of result of
       None \<Rightarrow>
         io_seq (print_err (''ERROR: Issue '' @ [SQ] @ identifier @ [SQ] @ '' not found''))
        (sys_exit 1)
     | Some issue \<Rightarrow>
         if issue = empty_issue then
           io_seq (print_err (''ERROR: Issue '' @ [SQ] @ identifier @ [SQ] @ '' not found''))
          (sys_exit 1)
         else subscript (iss_id issue))"

definition get_issue_with_labels :: "string \<Rightarrow> issue io" where
  "get_issue_with_labels identifier =
     io_bind (execute_query (issue_with_labels_query identifier)) (\<lambda>result.
     case result_issue_of result of
       None \<Rightarrow>
         io_seq (print_err (''ERROR: Issue '' @ [SQ] @ identifier @ [SQ] @ '' not found''))
        (sys_exit 1)
     | Some issue \<Rightarrow>
         if issue = empty_issue then
           io_seq (print_err (''ERROR: Issue '' @ [SQ] @ identifier @ [SQ] @ '' not found''))
          (sys_exit 1)
         else io_return issue)"

section \<open>linear_operations.py: the operations\<close>

text \<open>
  The eight operations are modelled as the functions of the source are called, with an
  absent optional argument as \<open>None\<close>; the parsing of the command line in \<open>main\<close> is not
  part of the model.
\<close>

text \<open>
  The pattern \<open>if arg: ...; input_fields.append(field)\<close>: \<open>mk\<close> computes the field from
  the argument (it may look a name up, or exit), and the field is appended.
\<close>

definition opt_field :: "'a list option \<Rightarrow> ('a list \<Rightarrow> string io) \<Rightarrow> string list \<Rightarrow> string list io" where
  "opt_field arg mk input_fields =
     (case arg of
        None \<Rightarrow> io_return input_fields
      | Some v \<Rightarrow>
          if v = [] then io_return input_fields
          else io_bind (mk v) (\<lambda>field. io_return (input_fields @ [field])))"

definition quoted :: "string \<Rightarrow> string" where
  "quoted s = [DQ] @ s @ [DQ]"

definition description_field :: "string \<Rightarrow> string io" where
  "description_field description =
     io_return (''description: '' @ quoted (escape_graphql description))"

definition priority_field :: "string \<Rightarrow> string io" where
  "priority_field priority = io_return (''priority: '' @ str_int (priority_value priority))"

definition title_field :: "string \<Rightarrow> string io" where
  "title_field title = io_return (''title: '' @ quoted (escape_graphql title))"

definition project_field :: "string \<Rightarrow> string io" where
  "project_field project =
     io_bind (get_project_id project) (\<lambda>project_id.
     io_return (''projectId: '' @ quoted project_id))"

definition parent_field :: "string \<Rightarrow> string io" where
  "parent_field parent =
     io_bind (get_issue_id parent) (\<lambda>parent_id.
     io_return (''parentId: '' @ quoted parent_id))"

definition labels_field :: "string list \<Rightarrow> string io" where
  "labels_field labels =
     io_bind (get_label_ids labels) (\<lambda>label_ids.
     io_return (''labelIds: ['' @ join '', '' (map quoted label_ids) @ '']''))"

definition due_date_field :: "string \<Rightarrow> string io" where
  "due_date_field due_date =
     (if \<not> validate_date due_date then
        io_seq (print_err (''ERROR: Invalid date format '' @ [SQ] @ due_date @ [SQ] @
                  ''. Use YYYY-MM-DD''))
       (sys_exit 1)
      else io_return (''dueDate: '' @ quoted due_date))"

definition assignee_field :: "string \<Rightarrow> string io" where
  "assignee_field assignee =
     io_bind (get_user_id assignee) (\<lambda>user_id.
     io_return (''assigneeId: '' @ quoted user_id))"

definition status_field :: "string \<Rightarrow> string io" where
  "status_field status =
     io_bind (get_state_id status) (\<lambda>state_id.
     io_return (''stateId: '' @ quoted state_id))"

text \<open>Pieces of the output documents.\<close>

definition jopt :: "string option \<Rightarrow> json" where
  "jopt v = (case v of None \<Rightarrow> JNull | Some s \<Rightarrow> JStr s)"

definition label_names_json :: "node list \<Rightarrow> json" where
  "label_names_json ls = JArr (map (\<lambda>l. JStr (node_name l)) ls)"

definition parent_item :: "issue \<Rightarrow> (string \<times> json) list" where
  "parent_item issue =
     (case iss_parent issue of
        Some p \<Rightarrow> [(''parent'', JStr (parent_identifier p))] | None \<Rightarrow> [])"

definition project_item :: "issue \<Rightarrow> (string \<times> json) list" where
  "project_item issue =
     (case iss_project issue of Some n \<Rightarrow> [(''project'', JStr n)] | None \<Rightarrow> [])"

definition labels_item :: "issue \<Rightarrow> (string \<times> json) list" where
  "labels_item issue =
     (if iss_labels issue \<noteq> [] then [(''labels'', label_names_json (iss_labels issue))]
      else [])"

definition due_date_item :: "issue \<Rightarrow> (string \<times> json) list" where
  "due_date_item issue =
     (if truthy (iss_dueDate issue) then [(''due_date'', jopt (iss_dueDate issue))] else [])"

definition assignee_item :: "issue \<Rightarrow> (string \<times> json) list" where
  "assignee_item issue =
     (case iss_assignee issue of Some n \<Rightarrow> [(''assignee'', JStr n)] | None \<Rightarrow> [])"

definition failure :: "string \<Rightarrow> unit io" where
  "failure msg =
     io_seq (print_out (JObj [(''success'', JBool False), (''error'', JStr msg)])) (sys_exit 1)"

definition issue_or_empty :: "issue option \<Rightarrow> issue" where
  "issue_or_empty i = (case i of None \<Rightarrow> empty_issue | Some x \<Rightarrow> x)"

subsection \<open>create\<close>

definition create_output :: "issue \<Rightarrow> json" where
  "create_output issue =
     JObj ([(''success'', JBool True),
            (''identifier'', jopt (iss_identifier issue)),
            (''title'', jopt (iss_title issue)),
            (''url'', jopt (iss_url issue))]
           @ parent_item issue @ labels_item issue @ due_date_item issue @ assignee_item issue)"

definition create_report :: "data \<Rightarrow> unit io" where
  "create_report result =
     (case result of
        IssueCreate issue_data \<Rightarrow>
          if success issue_data
          then print_out (create_output (issue_or_empty (result_issue issue_data)))
          else failure ''Failed to create issue''
      | _ \<Rightarrow> failure ''Failed to create issue'')"

text \<open>The part of \<open>create_issue\<close> that builds \<open>input_fields\<close>, one \<open>if\<close> after the other.\<close>

definition create_input_fields ::
  "string \<Rightarrow> string \<Rightarrow> string option \<Rightarrow> string option \<Rightarrow> string option \<Rightarrow>
   string option \<Rightarrow> string list option \<Rightarrow> string option \<Rightarrow> string option \<Rightarrow>
   string option \<Rightarrow> string list io" where
  "create_input_fields team_id title description priority project parent labels due_date
     assignee status =
     io_chain
       [opt_field description description_field,
        opt_field priority priority_field,
        opt_field project project_field,
        opt_field parent parent_field,
        opt_field labels labels_field,
        opt_field due_date due_date_field,
        opt_field assignee assignee_field,
        opt_field status status_field]
       [''teamId: '' @ quoted team_id, ''title: '' @ quoted (escape_graphql title)]"

definition create_issue ::
  "string \<Rightarrow> string option \<Rightarrow> string option \<Rightarrow> string option \<Rightarrow> string option \<Rightarrow>
   string list option \<Rightarrow> string option \<Rightarrow> string option \<Rightarrow> string option \<Rightarrow> unit io" where
  "create_issue title description priority project parent labels due_date assignee status =
     io_bind get_team_id (\<lambda>team_id.
     io_bind (create_input_fields team_id title description priority project parent labels
                due_date assignee status)
       (\<lambda>input_fields.
     io_bind (execute_query (create_mutation (join '', '' input_fields))) create_report))"

subsection \<open>update\<close>

definition update_output :: "issue \<Rightarrow> json" where
  "update_output issue =
     JObj ([(''success'', JBool True),
            (''identifier'', jopt (iss_identifier issue)),
            (''title'', jopt (iss_title issue)),
            (''status'', jopt (iss_state issue)),
            (''priority'', JStr (priority_display (iss_priority issue))),
            (''url'', jopt (iss_url issue))]
           @ parent_item issue @ project_item issue @ labels_item issue
           @ due_date_item issue @ assignee_item issue)"

definition update_report :: "data \<Rightarrow> unit io" where
  "update_report result =
     (case result of
        IssueUpdate update_data \<Rightarrow>
          if success update_data
          then print_out (update_output (issue_or_empty (result_issue update_data)))
          else failure ''Failed to update issue''
      | _ \<Rightarrow> failure ''Failed to update issue'')"

text \<open>The part of \<open>update_issue\<close> that builds \<open>input_fields\<close>.\<close>

definition update_input_fields ::
  "string option \<Rightarrow> string option \<Rightarrow> string option \<Rightarrow> string option \<Rightarrow>
   string option \<Rightarrow> string option \<Rightarrow> string list option \<Rightarrow> string option \<Rightarrow>
   string option \<Rightarrow> string list io" where
  "update_input_fields status priority title description project parent labels due_date
     assignee =
     io_chain
       [opt_field status status_field,
        opt_field priority priority_field,
        opt_field title title_field,
        opt_field description description_field,
        opt_field project project_field,
        opt_field parent parent_field,
        opt_field labels labels_field,
        opt_field due_date due_date_field,
        opt_field assignee assignee_field]
       []"

definition update_issue ::
  "string \<Rightarrow> string option \<Rightarrow> string option \<Rightarrow> string option \<Rightarrow> string option \<Rightarrow>
   string option \<Rightarrow> string option \<Rightarrow> string list option \<Rightarrow> string option \<Rightarrow>
   string option \<Rightarrow> unit io" where
  "update_issue identifier status priority title description project parent labels due_date
     assignee =
     io_bind (get_issue_id identifier) (\<lambda>issue_id.
     io_bind (update_input_fields status priority title description project parent labels
                due_date assignee)
       (\<lambda>input_fields.
     if input_fields = [] then
       io_seq (print_err ''ERROR: No updates specified.'') (sys_exit 1)
     else
       io_bind (execute_query (update_mutation issue_id (join '', '' input_fields)))
         update_report))"

subsection \<open>list\<close>

text \<open>The pattern \<open>if arg: filters.append(clause)\<close>.\<close>

definition opt_filter :: "string option \<Rightarrow> (string \<Rightarrow> string) \<Rightarrow> string list \<Rightarrow> string list" where
  "opt_filter arg mk filters =
     (case arg of
        None \<Rightarrow> filters
      | Some v \<Rightarrow> if v = [] then filters else filters @ [mk v])"

definition state_filter :: "string \<Rightarrow> string" where
  "state_filter status =
     ''state: { name: { containsIgnoreCase: '' @ quoted (escape_graphql status) @ '' } }''"

definition project_filter :: "string \<Rightarrow> string" where
  "project_filter project =
     ''project: { name: { containsIgnoreCase: '' @ quoted (escape_graphql project) @ '' } }''"

definition priority_filter :: "string \<Rightarrow> string" where
  "priority_filter priority = ''priority: { eq: '' @ str_int (priority_value priority) @ '' }''"

definition labels_filter :: "string \<Rightarrow> string" where
  "labels_filter label =
     ''labels: { name: { containsIgnoreCase: '' @ quoted (escape_graphql label) @ '' } }''"

definition assignee_filter :: "string \<Rightarrow> string" where
  "assignee_filter assignee =
     ''assignee: { name: { containsIgnoreCase: '' @ quoted (escape_graphql assignee) @ '' } }''"

definition list_filters ::
  "string option \<Rightarrow> string option \<Rightarrow> string option \<Rightarrow> string option \<Rightarrow> string option \<Rightarrow>
   string list" where
  "list_filters status project priority label assignee =
     opt_filter assignee assignee_filter
    (opt_filter label labels_filter
    (opt_filter priority priority_filter
    (opt_filter project project_filter
    (opt_filter status state_filter []))))"

definition filter_clause_of :: "string list \<Rightarrow> string" where
  "filter_clause_of filters =
     (let filter_str = (if filters \<noteq> [] then join '', '' filters else [])
      in if filter_str \<noteq> [] then '', filter: { '' @ filter_str @ '' }'' else [])"

definition list_issues_query ::
  "string \<Rightarrow> string option \<Rightarrow> string option \<Rightarrow> string option \<Rightarrow> string option \<Rightarrow>
   string option \<Rightarrow> int \<Rightarrow> string" where
  "list_issues_query team_id status project priority label assignee limit =
     list_query team_id (str_int limit)
       (filter_clause_of (list_filters status project priority label assignee))"

definition list_item :: "issue \<Rightarrow> json io" where
  "list_item issue =
     io_bind (subscript (iss_identifier issue)) (\<lambda>identifier.
     io_bind (subscript (iss_title issue)) (\<lambda>title.
     io_bind (subscript (iss_url issue)) (\<lambda>url.
     io_return
       (JObj ([(''identifier'', JStr identifier),
               (''title'', JStr title),
               (''status'', jopt (iss_state issue)),
               (''priority'', JStr (priority_display (iss_priority issue))),
               (''url'', JStr url)]
              @ project_item issue @ assignee_item issue @ labels_item issue
              @ parent_item issue @ due_date_item issue)))))"

fun list_items :: "issue list \<Rightarrow> json list \<Rightarrow> json list io" where
  "list_items [] output = io_return output"
| "list_items (issue # issues) output =
     io_bind (list_item issue) (\<lambda>item. list_items issues (output @ [item]))"

definition list_issues ::
  "string option \<Rightarrow> string option \<Rightarrow> string option \<Rightarrow> string option \<Rightarrow> string option \<Rightarrow>
   int \<Rightarrow> unit io" where
  "list_issues status project priority label assignee limit =
     io_bind get_team_id (\<lambda>team_id.
     io_bind (execute_query
                (list_issues_query team_id status project priority label assignee limit))
       (\<lambda>result.
     io_bind (list_items (case result of Team t \<Rightarrow> team_issues t | _ \<Rightarrow> []) [])
       (\<lambda>output. print_out (JArr output))))"

subsection \<open>add-labels and remove-labels\<close>

text \<open>
  \<open>list(set(xs))\<close> keeps one copy of each element; the order Python iterates a set of
  strings in is not fixed by the language, and \<open>remdups\<close> stands for one such order.
\<close>

definition labels_output :: "issue \<Rightarrow> json" where
  "labels_output issue =
     JObj [(''success'', JBool True),
           (''identifier'', jopt (iss_identifier issue)),
           (''labels'', label_names_json (iss_labels issue))]"

definition labels_report :: "string \<Rightarrow> data \<Rightarrow> unit io" where
  "labels_report msg result =
     (case result of
        IssueUpdate update_data \<Rightarrow>
          if success update_data
          then print_out (labels_output (issue_or_empty (result_issue update_data)))
          else failure msg
      | _ \<Rightarrow> failure msg)"

definition add_labels_to_issue :: "string \<Rightarrow> string list \<Rightarrow> unit io" where
  "add_labels_to_issue identifier label_names =
     io_bind (get_issue_with_labels identifier) (\<lambda>issue.
     io_bind (subscript (iss_id issue)) (\<lambda>issue_id.
     io_bind (get_label_ids label_names) (\<lambda>new_label_ids.
     io_bind (execute_query
                (add_labels_mutation issue_id
                   (join '', '' (map quoted
                      (remdups (map node_id (iss_labels issue) @ new_label_ids))))))
       (labels_report ''Failed to add labels''))))"

definition remove_labels_from_issue :: "string \<Rightarrow> string list \<Rightarrow> unit io" where
  "remove_labels_from_issue identifier label_names =
     io_bind (get_issue_with_labels identifier) (\<lambda>issue.
     io_bind (subscript (iss_id issue)) (\<lambda>issue_id.
     io_bind (get_label_ids label_names) (\<lambda>remove_ids.
     io_bind (execute_query
                (remove_labels_mutation issue_id
                   (join '', '' (map quoted
                      (filter (\<lambda>lid. lid \<notin> set remove_ids)
                         (map node_id (iss_labels issue)))))))
       (labels_report ''Failed to remove labels''))))"

subsection \<open>comment, archive, get\<close>

definition add_comment :: "string \<Rightarrow> string \<Rightarrow> unit io" where
  "add_comment identifier body =
     io_bind (get_issue_id identifier) (\<lambda>issue_id.
     io_bind (execute_query (comment_mutation issue_id (escape_graphql body))) (\<lambda>result.
     case result of
       CommentCreate comment_data \<Rightarrow>
         if comment_success comment_data then
           print_out (JObj
             [(''success'', JBool True),
              (''comment_id'',
                 jopt (case result_comment comment_data of
                         None \<Rightarrow> None | Some c \<Rightarrow> comment_id c)),
              (''created_at'',
                 jopt (case result_comment comment_data of
                         None \<Rightarrow> None | Some c \<Rightarrow> comment_createdAt c))])
         else failure ''Failed to add comment''
     | _ \<Rightarrow> failure ''Failed to add comment''))"

definition archive_issue :: "string \<Rightarrow> unit io" where
  "archive_issue identifier =
     io_bind (get_issue_id identifier) (\<lambda>issue_id.
     io_bind (execute_query (archive_mutation issue_id)) (\<lambda>result.
     case result of
       IssueArchive ok \<Rightarrow>
         if ok then
           print_out (JObj [(''success'', JBool True),
                            (''message'', JStr (''Issue '' @ identifier @ '' archived''))])
         else failure ''Failed to archive issue''
     | _ \<Rightarrow> failure ''Failed to archive issue''))"

definition child_json :: "child \<Rightarrow> json" where
  "child_json c =
     JObj [(''identifier'', JStr (child_identifier c)),
           (''title'', JStr (child_title c)),
           (''status'', jopt (child_state c))]"

definition comment_json :: "comment \<Rightarrow> json" where
  "comment_json c =
     JObj [(''body'', jopt (comment_body c)),
           (''author'', jopt (comment_author c)),
           (''created_at'', jopt (comment_createdAt c))]"

definition get_output :: "issue \<Rightarrow> json" where
  "get_output issue =
     JObj ([(''identifier'', jopt (iss_identifier issue)),
            (''title'', jopt (iss_title issue)),
            (''description'', jopt (iss_description issue)),
            (''status'', jopt (iss_state issue)),
            (''priority'', JStr (priority_display (iss_priority issue))),
            (''project'', jopt (iss_project issue)),
            (''assignee'', jopt (iss_assignee issue)),
            (''url'', jopt (iss_url issue)),
            (''created_at'', jopt (iss_createdAt issue)),
            (''updated_at'', jopt (iss_updatedAt issue))]
           @ (case iss_parent issue of
                Some p \<Rightarrow>
                  [(''parent'', JObj [(''identifier'', JStr (parent_identifier p)),
                                     (''title'', JStr (parent_title p))])]
              | None \<Rightarrow> [])
           @ (if iss_children issue \<noteq> []
              then [(''children'', JArr (map child_json (iss_children issue)))] else [])
           @ labels_item issue @ due_date_item issue
           @ [(''comments'', JArr (map comment_json (iss_comments issue)))])"

definition get_issue :: "string \<Rightarrow> unit io" where
  "get_issue identifier =
     io_bind (execute_query (issue_detail_query identifier)) (\<lambda>result.
     case result_issue_of result of
       None \<Rightarrow>
         io_seq (print_err (''ERROR: Issue '' @ [SQ] @ identifier @ [SQ] @ '' not found''))
        (sys_exit 1)
     | Some issue \<Rightarrow>
         if issue = empty_issue then
           io_seq (print_err (''ERROR: Issue '' @ [SQ] @ identifier @ [SQ] @ '' not found''))
          (sys_exit 1)
         else print_out (get_output issue))"

section \<open>Notions the properties are stated with\<close>




text \<open>
  The first element of a list, in its order, that satisfies a test: it satisfies the test
  and nothing before it does.
\<close>

definition first_match :: "('a \<Rightarrow> bool) \<Rightarrow> 'a list \<Rightarrow> 'a \<Rightarrow> bool" where
  "first_match P xs x =
     (\<exists>pre suf. xs = pre @ x # suf \<and> P x \<and> (\<forall>y \<in> set pre. \<not> P y))"




text \<open>
  The clauses one option of the list operation stands for: one clause when the option has a
  non-empty value, none when it is absent or empty.
\<close>

definition clause_of :: "string option \<Rightarrow> (string \<Rightarrow> string) \<Rightarrow> string list" where
  "clause_of arg mk = (case arg of None \<Rightarrow> [] | Some v \<Rightarrow> if v = [] then [] else [mk v])"



section \<open>Example worlds\<close>

text \<open>A world with credentials in place, nothing sent or printed yet, and a given service.\<close>

definition example_credentials :: credentials where
  "example_credentials = \<lparr>cred_api_key = ''lin_api_k'', cred_team_id = ''T1''\<rparr>"

definition example_world :: "(request list \<Rightarrow> http_result) \<Rightarrow> world" where
  "example_world srv =
     \<lparr>home = ''/home/u'', credentials_file = Some example_credentials,
      service = srv, sent = [], stdout = [], stderr = []\<rparr>"

text \<open>The same without a credentials file.\<close>

definition bare_world :: world where
  "bare_world =
     \<lparr>home = ''/home/u'', credentials_file = None,
      service = (\<lambda>_. URLError ''unreachable''), sent = [], stdout = [], stderr = []\<rparr>"

text \<open>A reply without errors.\<close>

definition ok :: "data \<Rightarrow> http_result" where
  "ok d = Response \<lparr>errors = None, payload_data = Some d\<rparr>"







text \<open>A service that knows the issue asked for, and one that knows no issue.\<close>

definition found_world :: world where
  "found_world =
     example_world (\<lambda>_. ok (Issue (Some (empty_issue\<lparr>iss_id := Some ''uuid-42''\<rparr>))))"


text \<open>A team with four workflow states, two projects and three labels.\<close>

definition example_team :: team where
  "example_team =
     \<lparr>team_states =
        [\<lparr>node_id = ''s1'', node_name = ''Backlog''\<rparr>, \<lparr>node_id = ''s2'', node_name = ''Todo''\<rparr>,
         \<lparr>node_id = ''s3'', node_name = ''In Progress''\<rparr>,
         \<lparr>node_id = ''s4'', node_name = ''Done''\<rparr>],
      team_projects =
        [\<lparr>node_id = ''p1'', node_name = ''EstateMate Improvements''\<rparr>,
         \<lparr>node_id = ''p2'', node_name = ''Estate Planning''\<rparr>],
      team_labels =
        [\<lparr>node_id = ''L1'', node_name = ''Bug''\<rparr>, \<lparr>node_id = ''L2'', node_name = ''urgent''\<rparr>,
         \<lparr>node_id = ''L3'', node_name = ''Debugging''\<rparr>],
      team_issues = []\<rparr>"









text \<open>A team with one issue, whose priority 7 is outside the range 0 to 4.\<close>

definition issue_7 :: issue where
  "issue_7 =
     empty_issue\<lparr>iss_identifier := Some ''EST2-7'', iss_title := Some ''Leaking roof'',
                 iss_priority := Some 7, iss_url := Some ''https://linear.app/est2/7''\<rparr>"

definition list_world :: world where
  "list_world = example_world (\<lambda>_. ok (Team (example_team\<lparr>team_issues := [issue_7]\<rparr>)))"


section \<open>Running the model: basic facts\<close>

lemma io_bind_Return: "m w = (Return x, w') \<Longrightarrow> io_bind m f w = f x w'"
  by (simp add: io_bind_def)

lemma io_bind_Exit: "m w = (Exit c, w') \<Longrightarrow> io_bind m f w = (Exit c, w')"
  by (simp add: io_bind_def)

lemma io_bind_Raise: "m w = (Raise e, w') \<Longrightarrow> io_bind m f w = (Raise e, w')"
  by (simp add: io_bind_def)


lemma print_err_seq: "io_seq (print_err l) m w = m (w\<lparr>stderr := stderr w @ [l]\<rparr>)"
  by (simp add: io_seq_def io_bind_def print_err_def)

lemma print_err_exit:
  "io_seq (print_err l) (sys_exit c) w = (Exit c, w\<lparr>stderr := stderr w @ [l]\<rparr>)"
  by (simp add: print_err_seq sys_exit_def)

lemma load_credentials_missing:
  "credentials_file w = None \<Longrightarrow>
   load_credentials w = (Exit 1, w\<lparr>stderr := stderr w @ setup_instructions w\<rparr>)"
  by (simp add: load_credentials_def)

lemma load_credentials_present:
  "credentials_file w = Some c \<Longrightarrow> load_credentials w = (Return c, w)"
  by (simp add: load_credentials_def)

lemma get_team_id_missing:
  "credentials_file w = None \<Longrightarrow>
   get_team_id w = (Exit 1, w\<lparr>stderr := stderr w @ setup_instructions w\<rparr>)"
  by (simp add: get_team_id_def io_bind_Exit [OF load_credentials_missing])

lemma get_team_id_present:
  "credentials_file w = Some c \<Longrightarrow> get_team_id w = (Return (cred_team_id c), w)"
  by (simp add: get_team_id_def io_bind_Return [OF load_credentials_present] io_return_def)

lemma get_headers_present:
  "credentials_file w = Some c \<Longrightarrow> get_headers w = (Return (cred_api_key c), w)"
  by (simp add: get_headers_def io_bind_Return [OF load_credentials_present] io_return_def)

lemma execute_query_missing:
  "credentials_file w = None \<Longrightarrow>
   execute_query q w = (Exit 1, w\<lparr>stderr := stderr w @ setup_instructions w\<rparr>)"
  by (simp add: execute_query_def get_headers_def
      io_bind_Exit [OF io_bind_Exit [OF load_credentials_missing]])

lemma execute_query_present:
  "credentials_file w = Some c \<Longrightarrow>
   execute_query q w =
     (case reply c q w of
        HTTPError code reason \<Rightarrow>
          if code = 401 then
            (Exit 1, post c q w\<lparr>stderr := stderr w @
               [''AUTH_ERROR: Invalid or expired API key'',
                ''Check your API key at: Linear > Settings > API > Personal API keys'']\<rparr>)
          else if code = 429 then
            (Exit 1, post c q w\<lparr>stderr := stderr w @
               [''RATE_LIMITED: Too many requests - wait a moment and try again'']\<rparr>)
          else
            (Exit 1, post c q w\<lparr>stderr := stderr w @
               [''HTTP_ERROR: '' @ str_int code @ '' '' @ reason]\<rparr>)
      | URLError reason \<Rightarrow>
          (Exit 1, post c q w\<lparr>stderr := stderr w @
             [''NETWORK_ERROR: <urlopen error '' @ reason @ ''>'']\<rparr>)
      | Response result \<Rightarrow>
          (case errors result of
             Some es \<Rightarrow>
               (Exit 1, post c q w\<lparr>stderr := stderr w @
                  [''GRAPHQL_ERROR: '' @ join ''; '' (map error_msg es)]\<rparr>)
           | None \<Rightarrow>
               (Return (case payload_data result of None \<Rightarrow> Empty | Some d \<Rightarrow> d),
                post c q w)))"
  unfolding execute_query_def
  apply (subst io_bind_Return [OF get_headers_present], assumption)
  apply (simp add: io_bind_def urlopen_def reply_def post_def request_of_def print_err_seq
      sys_exit_def io_return_def split: http_result.splits option.splits)
  done

text \<open>A query that returns has sent exactly one request, and changed nothing else.\<close>

lemma execute_query_Return:
  assumes "execute_query q w = (Return d, w')"
  shows "\<exists>c. credentials_file w = Some c \<and> w' = post c q w"
proof (cases "credentials_file w")
  case None
  from execute_query_missing [OF None, of q] assms show ?thesis by simp
next
  case (Some c)
  from execute_query_present [OF Some, of q] assms have "w' = post c q w"
    by (auto split: http_result.splits option.splits if_splits)
  with Some show ?thesis by simp
qed


lemma get_issue_id_missing:
  "credentials_file w = None \<Longrightarrow>
   get_issue_id i w = (Exit 1, w\<lparr>stderr := stderr w @ setup_instructions w\<rparr>)"
  by (simp add: get_issue_id_def io_bind_def execute_query_missing)

lemma get_issue_with_labels_missing:
  "credentials_file w = None \<Longrightarrow>
   get_issue_with_labels i w = (Exit 1, w\<lparr>stderr := stderr w @ setup_instructions w\<rparr>)"
  by (simp add: get_issue_with_labels_def io_bind_def execute_query_missing)

lemma opt_field_None: "opt_field None mk fs = io_return fs"
  by (simp add: opt_field_def)

text \<open>An issue lookup that returns has sent the lookup query, and only that.\<close>

lemma get_issue_id_Return:
  assumes "get_issue_id i w = (Return x, w1)"
  shows "\<exists>c. credentials_file w = Some c \<and> w1 = post c (issue_id_query i) w"
proof (cases "execute_query (issue_id_query i) w")
  case (Pair r w')
  show ?thesis
  proof (cases r)
    case (Return d)
    with Pair have eq: "execute_query (issue_id_query i) w = (Return d, w')" by simp
    from assms have "w1 = w'"
      by (auto simp: get_issue_id_def io_bind_def eq print_err_exit subscript_def
          io_raise_def io_return_def split: option.splits if_splits)
    with execute_query_Return [OF eq] show ?thesis by simp
  next
    case (Exit n)
    with Pair assms show ?thesis by (simp add: get_issue_id_def io_bind_def)
  next
    case (Raise e)
    with Pair assms show ?thesis by (simp add: get_issue_id_def io_bind_def)
  qed
qed

text \<open>The two cases of \<open>execute_query\<close> in one equation, for running it in a given world.\<close>

lemma execute_query_run:
  "execute_query q w =
     (case credentials_file w of
        None \<Rightarrow> (Exit 1, w\<lparr>stderr := stderr w @ setup_instructions w\<rparr>)
      | Some c \<Rightarrow>
          (case reply c q w of
             HTTPError code reason \<Rightarrow>
               if code = 401 then
                 (Exit 1, post c q w\<lparr>stderr := stderr w @
                    [''AUTH_ERROR: Invalid or expired API key'',
                     ''Check your API key at: Linear > Settings > API > Personal API keys'']\<rparr>)
               else if code = 429 then
                 (Exit 1, post c q w\<lparr>stderr := stderr w @
                    [''RATE_LIMITED: Too many requests - wait a moment and try again'']\<rparr>)
               else
                 (Exit 1, post c q w\<lparr>stderr := stderr w @
                    [''HTTP_ERROR: '' @ str_int code @ '' '' @ reason]\<rparr>)
           | URLError reason \<Rightarrow>
               (Exit 1, post c q w\<lparr>stderr := stderr w @
                  [''NETWORK_ERROR: <urlopen error '' @ reason @ ''>'']\<rparr>)
           | Response result \<Rightarrow>
               (case errors result of
                  Some es \<Rightarrow>
                    (Exit 1, post c q w\<lparr>stderr := stderr w @
                       [''GRAPHQL_ERROR: '' @ join ''; '' (map error_msg es)]\<rparr>)
                | None \<Rightarrow>
                    (Return (case payload_data result of None \<Rightarrow> Empty | Some d \<Rightarrow> d),
                     post c q w))))"
  by (cases "credentials_file w") (simp_all add: execute_query_missing execute_query_present)

lemmas run_simps =
  execute_query_run io_bind_def io_return_def io_seq_def print_err_def print_out_def
  sys_exit_def io_raise_def subscript_def reply_def post_def request_of_def ok_def
  example_world_def example_credentials_def load_credentials_def get_team_id_def
  result_issue_of_def

lemma PRIORITY_DISPLAY_eq:
  "PRIORITY_DISPLAY =
     [1 \<mapsto> ''urgent'', 2 \<mapsto> ''high'', 3 \<mapsto> ''medium'', 4 \<mapsto> ''low'', 0 \<mapsto> ''none'']"
  by (simp add: PRIORITY_DISPLAY_def PRIORITY_MAP_def)



section \<open>Name resolution: basic facts\<close>






lemma find_Some_first_match: "find P xs = Some x \<Longrightarrow> first_match P xs x"
  unfolding first_match_def find_Some_iff
  apply clarify
  subgoal for i
    apply (rule exI [of _ "take i xs"])
    apply (rule exI [of _ "drop (Suc i) xs"])
    apply (auto simp: id_take_nth_drop in_set_conv_nth)
    done
  done









section \<open>What the lookups send\<close>










section \<open>What the operations print\<close>


































section \<open>The list query: basic facts\<close>

lemma opt_filter_clause: "opt_filter arg mk fs = fs @ clause_of arg mk"
  by (simp add: opt_filter_def clause_of_def split: option.splits)

lemma list_filters_clauses:
  "list_filters status project priority label assignee =
     clause_of status state_filter @ clause_of project project_filter @
     clause_of priority priority_filter @ clause_of label labels_filter @
     clause_of assignee assignee_filter"
  by (simp add: list_filters_def opt_filter_clause)

lemma clause_of_empty: "clause_of arg mk = [] \<longleftrightarrow> \<not> truthy arg"
  by (simp add: clause_of_def truthy_def split: option.splits)

lemma join_nonempty: "fs \<noteq> [] \<Longrightarrow> \<forall>f \<in> set fs. f \<noteq> [] \<Longrightarrow> join sep fs \<noteq> []"
  by (induction sep fs rule: join.induct) auto

lemma list_filters_nonempty:
  "\<forall>f \<in> set (list_filters status project priority label assignee). f \<noteq> []"
  by (auto simp: list_filters_clauses clause_of_def state_filter_def project_filter_def
      priority_filter_def labels_filter_def assignee_filter_def split: option.splits if_splits)

lemma filter_clause_of_list_filters:
  "filter_clause_of (list_filters status project priority label assignee) =
     (if list_filters status project priority label assignee = [] then []
      else '', filter: { '' @
           join '', '' (list_filters status project priority label assignee) @ '' }'')"
  using join_nonempty [OF _ list_filters_nonempty, of status project priority label assignee "'', ''"]
  by (simp add: filter_clause_of_def Let_def)

lemma list_query_contains:
  "sublist (''issues(first: '' @ l @ '', orderBy: updatedAt'' @ fc @ '') {'')
     (list_query team_id l fc)"
proof -
  have "\<exists>ps ss. list_query team_id l fc =
     ps @ (''issues(first: '' @ l @ '', orderBy: updatedAt'' @ fc @ '') {'') @ ss"
    unfolding list_query_def
    apply (rule exI [of _ "''\<newline>'' @ ''    {\<newline>'' @ ''        team(id: '' @ [DQ] @ team_id @ [DQ] @ '') {\<newline>'' @ ''            ''"])
    apply (simp add: DQ_def)
    done
  then show ?thesis by (simp add: sublist_def)
qed

lemma list_items_sent: "sent (snd (list_items issues out w)) = sent w"
proof (induction issues arbitrary: out w)
  case Nil
  show ?case by (simp add: io_return_def)
next
  case (Cons issue issues)
  show ?case
    by (cases "list_item issue w")
       (auto simp: io_bind_def list_item_def subscript_def io_raise_def io_return_def Cons.IH
         split: option.splits outcome.splits)
qed

lemma list_issues_sent:
  assumes "credentials_file w = Some c"
  shows "sent (snd (list_issues status project priority label assignee limit w)) =
     sent w @ [request_of c
       (list_issues_query (cred_team_id c) status project priority label assignee limit)]"
proof -
  let ?q = "list_issues_query (cred_team_id c) status project priority label assignee limit"
  have "list_issues status project priority label assignee limit w =
     io_bind (execute_query ?q) (\<lambda>result.
       io_bind (list_items (case result of Team t \<Rightarrow> team_issues t | _ \<Rightarrow> []) [])
         (\<lambda>out. print_out (JArr out))) w"
    by (simp add: list_issues_def io_bind_def [of get_team_id] get_team_id_present [OF assms])
  moreover have "sent (snd (io_bind (list_items issues []) (\<lambda>out. print_out (JArr out)) w1)) =
      sent w1" for issues w1
    using list_items_sent [of issues "[]" w1]
    by (cases "list_items issues [] w1")
       (auto simp: io_bind_def print_out_def split: outcome.splits)
  ultimately show ?thesis
    by (auto simp: io_bind_def [of "execute_query ?q"] execute_query_present [OF assms]
        post_def split: http_result.splits option.splits)
qed


section \<open>Escaping and the fields of a mutation: basic facts\<close>

















section \<open>Priorities\<close>

text \<open>
  C5. Each of the five priority labels has an integer between 0 and 4 in \<open>PRIORITY_MAP\<close>,
  the reverse map \<open>PRIORITY_DISPLAY\<close> takes that integer back to the label, and so does
  the round trip through the two lookups the operations make (\<open>priority_value\<close>, then
  \<open>priority_display\<close>). Distinct labels have distinct integers.
\<close>

theorem priority_round_trip:
  "(\<forall>p \<in> set [''urgent'', ''high'', ''medium'', ''low'', ''none''].
      (\<exists>n. map_of PRIORITY_MAP p = Some n \<and> 0 \<le> n \<and> n \<le> 4 \<and> PRIORITY_DISPLAY n = Some p) \<and>
      priority_display (Some (priority_value p)) = p) \<and>
   inj_on priority_value (set [''urgent'', ''high'', ''medium'', ''low'', ''none''])"
  by (simp add: PRIORITY_DISPLAY_eq priority_display_def priority_value_def PRIORITY_MAP_def
      lower_def lower_char_def)

theorem priority_round_trip_witness:
  "map_of PRIORITY_MAP ''high'' = Some 2 \<and> PRIORITY_DISPLAY 2 = Some ''high'' \<and>
   priority_display (Some (priority_value ''high'')) = ''high''"
  using priority_round_trip [THEN conjunct1, THEN bspec, of "''high''"]
  by (simp add: PRIORITY_MAP_def)

section \<open>Date validation\<close>

text \<open>
  What \<open>validate_date\<close> accepts, exactly: the strings of the shape \<open>YYYY-MM-DD\<close>, and those
  strings followed by one newline.
\<close>

lemma digits_append:
  "length ds = n \<Longrightarrow> list_all is_digit ds \<Longrightarrow> digits n (ds @ r) = Some r"
  by (induction ds arbitrary: n) auto

lemma digits_SomeD:
  "digits n s = Some r \<Longrightarrow> \<exists>ds. s = ds @ r \<and> length ds = n \<and> list_all is_digit ds"
proof (induction n s rule: digits.induct)
  case (1 s)
  then show ?case by simp
next
  case (2 n)
  then show ?case by simp
next
  case (3 n c cs)
  then have c: "is_digit c" and rest: "digits n cs = Some r"
    by (auto split: if_splits)
  from 3(1) [OF c rest] obtain ds where "cs = ds @ r" "length ds = n" "list_all is_digit ds"
    by blast
  with c show ?case by (intro exI [of _ "c # ds"]) simp
qed

lemma dash_Some: "dash s = Some r \<longleftrightarrow> s = CHR ''-'' # r"
  by (cases s) auto

lemma validate_dateD:
  assumes "validate_date s"
  shows "\<exists>a b c r. s = a @ CHR ''-'' # b @ CHR ''-'' # c @ r \<and>
        length a = 4 \<and> length b = 2 \<and> length c = 2 \<and>
        list_all is_digit a \<and> list_all is_digit b \<and> list_all is_digit c \<and> at_end r"
proof -
  from assms obtain r where
    chain: "Option.bind (Option.bind (Option.bind (Option.bind (digits 4 s) dash)
             (digits 2)) dash) (digits 2) = Some r" and r: "at_end r"
    unfolding validate_date_def by (auto split: option.splits)
  from chain obtain r4 where
    c4: "Option.bind (Option.bind (Option.bind (digits 4 s) dash) (digits 2)) dash = Some r4"
    and d4: "digits 2 r4 = Some r"
    by (auto simp: bind_eq_Some_conv)
  from c4 obtain r3 where
    c3: "Option.bind (Option.bind (digits 4 s) dash) (digits 2) = Some r3"
    and d3: "dash r3 = Some r4"
    by (auto simp: bind_eq_Some_conv)
  from c3 obtain r2 where
    c2: "Option.bind (digits 4 s) dash = Some r2" and d2: "digits 2 r2 = Some r3"
    by (auto simp: bind_eq_Some_conv)
  from c2 obtain r1 where d0: "digits 4 s = Some r1" and d1: "dash r1 = Some r2"
    by (auto simp: bind_eq_Some_conv)
  from digits_SomeD [OF d0] obtain a where a: "s = a @ r1" "length a = 4" "list_all is_digit a"
    by blast
  from digits_SomeD [OF d2] obtain b where b: "r2 = b @ r3" "length b = 2" "list_all is_digit b"
    by blast
  from digits_SomeD [OF d4] obtain c where c: "r4 = c @ r" "length c = 2" "list_all is_digit c"
    by blast
  from d1 d3 have "r1 = CHR ''-'' # r2" "r3 = CHR ''-'' # r4" by (simp_all add: dash_Some)
  with a b c have "s = a @ CHR ''-'' # b @ CHR ''-'' # c @ r" by simp
  with a b c r show ?thesis by blast
qed

lemma validate_dateI:
  assumes "length a = 4" "length b = 2" "length c = 2"
    "list_all is_digit a" "list_all is_digit b" "list_all is_digit c" "at_end r"
  shows "validate_date (a @ CHR ''-'' # b @ CHR ''-'' # c @ r)"
  using assms by (simp add: validate_date_def digits_append)

lemma length4: "length a = 4 \<longleftrightarrow> (\<exists>w x y z. a = [w, x, y, z])"
  by (auto simp: length_Suc_conv eval_nat_numeral)

lemma length2: "length a = 2 \<longleftrightarrow> (\<exists>w x. a = [w, x])"
  by (auto simp: length_Suc_conv eval_nat_numeral)

lemma date_shapeI:
  assumes "length a = 4" "length b = 2" "length c = 2"
    "list_all is_digit a" "list_all is_digit b" "list_all is_digit c"
  shows "date_shape (a @ CHR ''-'' # b @ CHR ''-'' # c)"
  using assms by (auto simp: length4 length2 date_shape_def)

lemma date_shapeD:
  assumes "date_shape t"
  shows "\<exists>a b c. t = a @ CHR ''-'' # b @ CHR ''-'' # c \<and>
        length a = 4 \<and> length b = 2 \<and> length c = 2 \<and>
        list_all is_digit a \<and> list_all is_digit b \<and> list_all is_digit c"
proof -
  from assms obtain y1 y2 y3 y4 d1 m1 m2 d2 n1 n2 where
    t: "t = [y1, y2, y3, y4, d1, m1, m2, d2, n1, n2]"
    unfolding date_shape_def by (simp split: list.splits)
  with assms have "is_digit y1 \<and> is_digit y2 \<and> is_digit y3 \<and> is_digit y4 \<and> d1 = CHR ''-'' \<and>
          is_digit m1 \<and> is_digit m2 \<and> d2 = CHR ''-'' \<and> is_digit n1 \<and> is_digit n2"
    by (simp add: date_shape_def)
  with t show ?thesis
    by (intro exI [of _ "[y1, y2, y3, y4]"] exI [of _ "[m1, m2]"] exI [of _ "[n1, n2]"]) simp
qed

lemma validate_date_characterised:
  "validate_date s \<longleftrightarrow> date_shape s \<or> (\<exists>t. s = t @ [NL] \<and> date_shape t)"
proof
  assume "validate_date s"
  from validate_dateD [OF this] obtain a b c r where
    s: "s = a @ CHR ''-'' # b @ CHR ''-'' # c @ r" and
    parts: "length a = 4" "length b = 2" "length c = 2"
      "list_all is_digit a" "list_all is_digit b" "list_all is_digit c" and r: "at_end r"
    by blast
  from date_shapeI [OF parts] have shape: "date_shape (a @ CHR ''-'' # b @ CHR ''-'' # c)" .
  from r consider "r = []" | "r = [NL]" by (auto simp: at_end_def)
  then show "date_shape s \<or> (\<exists>t. s = t @ [NL] \<and> date_shape t)"
  proof cases
    case 1
    with s shape show ?thesis by simp
  next
    case 2
    with s have "s = (a @ CHR ''-'' # b @ CHR ''-'' # c) @ [NL]" by simp
    with shape show ?thesis by blast
  qed
next
  assume "date_shape s \<or> (\<exists>t. s = t @ [NL] \<and> date_shape t)"
  then consider "date_shape s" | t where "s = t @ [NL]" "date_shape t" by blast
  then show "validate_date s"
  proof cases
    case 1
    from date_shapeD [OF this] obtain a b c where
      "s = a @ CHR ''-'' # b @ CHR ''-'' # c @ []" "length a = 4" "length b = 2" "length c = 2"
      "list_all is_digit a" "list_all is_digit b" "list_all is_digit c"
      by auto
    then show ?thesis using validate_dateI [of a b c "[]"] by (simp add: at_end_def)
  next
    case 2
    from date_shapeD [OF 2(2)] obtain a b c where
      "t = a @ CHR ''-'' # b @ CHR ''-'' # c" "length a = 4" "length b = 2" "length c = 2"
      "list_all is_digit a" "list_all is_digit b" "list_all is_digit c"
      by auto
    then show ?thesis using validate_dateI [of a b c "[NL]"] 2(1) by (simp add: at_end_def)
  qed
qed

text \<open>
  C6. \<open>validate_date\<close> accepts \<open>2024-03-15\<close> and rejects \<open>03-15-2024\<close>, as the claim says, but
  it also accepts \<open>2024-03-15\<close> followed by a newline, a string of eleven characters that is
  not of the shape \<open>YYYY-MM-DD\<close>: the pattern ends in \<open>$\<close>, which matches before a final
  newline. By \<open>validate_date_characterised\<close> this is the only way in which the function
  departs from the shape.
\<close>

theorem validate_date_accepts_trailing_newline:
  "validate_date (''2024-03-15'' @ [NL]) \<and> \<not> date_shape (''2024-03-15'' @ [NL]) \<and>
   validate_date ''2024-03-15'' \<and> date_shape ''2024-03-15'' \<and>
   \<not> validate_date ''03-15-2024'' \<and> \<not> date_shape ''03-15-2024''"
  by (simp add: validate_date_def date_shape_def is_digit_def at_end_def eval_nat_numeral)

section \<open>Error classification\<close>




section \<open>Missing credentials\<close>

text \<open>
  C4. When the credentials file does not exist, each of the eight operations, whatever
  its arguments, exits with status 1 after printing the setup instructions to standard
  error. The world it leaves differs from the one it started in only in standard error:
  in particular no request has been sent.
\<close>

theorem missing_credentials_exit_before_any_request:
  assumes "credentials_file w = None"
  shows
    "create_issue title description priority project parent labels due_date assignee status w =
       (Exit 1, w\<lparr>stderr := stderr w @ setup_instructions w\<rparr>) \<and>
     update_issue identifier status priority title' description project parent labels due_date
         assignee w =
       (Exit 1, w\<lparr>stderr := stderr w @ setup_instructions w\<rparr>) \<and>
     list_issues status project priority label assignee limit w =
       (Exit 1, w\<lparr>stderr := stderr w @ setup_instructions w\<rparr>) \<and>
     add_labels_to_issue identifier label_names w =
       (Exit 1, w\<lparr>stderr := stderr w @ setup_instructions w\<rparr>) \<and>
     remove_labels_from_issue identifier label_names w =
       (Exit 1, w\<lparr>stderr := stderr w @ setup_instructions w\<rparr>) \<and>
     add_comment identifier body w =
       (Exit 1, w\<lparr>stderr := stderr w @ setup_instructions w\<rparr>) \<and>
     archive_issue identifier w =
       (Exit 1, w\<lparr>stderr := stderr w @ setup_instructions w\<rparr>) \<and>
     get_issue identifier w =
       (Exit 1, w\<lparr>stderr := stderr w @ setup_instructions w\<rparr>)"
  using assms
  by (simp add: create_issue_def update_issue_def list_issues_def add_labels_to_issue_def
      remove_labels_from_issue_def add_comment_def archive_issue_def get_issue_def
      io_bind_def get_team_id_missing get_issue_id_missing get_issue_with_labels_missing
      execute_query_missing)

theorem missing_credentials_exit_before_any_request_witness:
  "credentials_file bare_world = None \<and>
   create_issue ''Bug: Portfolio shows 0 EUR'' None (Some ''high'') None None
       (Some [''Bug'']) None None None bare_world =
     (Exit 1, bare_world\<lparr>stderr := setup_instructions bare_world\<rparr>) \<and>
   fst (get_issue ''EST2-42'' bare_world) = Exit 1 \<and>
   sent (snd (get_issue ''EST2-42'' bare_world)) = [] \<and>
   take 2 (stderr (snd (archive_issue ''EST2-42'' bare_world))) =
     [''CREDENTIALS_MISSING'',
      ''Create file at /home/u/.linear_api/estatemate-product-credentials.json with:'']"
  using missing_credentials_exit_before_any_request [of bare_world
      "''Bug: Portfolio shows 0 EUR''" None "Some ''high''" None None "Some [''Bug'']"
      None None None "''EST2-42''" None]
  by (simp add: bare_world_def setup_instructions_def CREDENTIALS_FILE_def)


section \<open>Update without attributes\<close>

lemma found_world_lookup:
  "get_issue_id ''EST2-42'' found_world =
     (Return ''uuid-42'',
      found_world\<lparr>sent := [request_of example_credentials (issue_id_query ''EST2-42'')]\<rparr>)"
  by (simp add: get_issue_id_def found_world_def run_simps empty_issue_def)

text \<open>
  C10. When the lookup of the identifier succeeds and no attribute is given (every
  optional argument of \<open>update_issue\<close> is \<open>None\<close>), the run ends with exit status 1 after
  printing \<open>ERROR: No updates specified.\<close> to standard error, and the only request it has
  sent is the lookup query for the identifier: no mutation goes out.
\<close>

theorem update_without_fields_sends_no_mutation:
  assumes "get_issue_id identifier w = (Return issue_id, w1)"
  shows
    "update_issue identifier None None None None None None None None None w =
       (Exit 1, w1\<lparr>stderr := stderr w1 @ [''ERROR: No updates specified.'']\<rparr>) \<and>
     map req_query (sent w1) = map req_query (sent w) @ [issue_id_query identifier]"
proof -
  from get_issue_id_Return [OF assms] obtain c
    where "w1 = post c (issue_id_query identifier) w"
    by blast
  then have "map req_query (sent w1) = map req_query (sent w) @ [issue_id_query identifier]"
    by (simp add: post_def request_of_def)
  moreover have "update_issue identifier None None None None None None None None None w =
       (Exit 1, w1\<lparr>stderr := stderr w1 @ [''ERROR: No updates specified.'']\<rparr>)"
    by (simp add: update_issue_def io_bind_def assms update_input_fields_def opt_field_None
        io_return_def print_err_exit)
  ultimately show ?thesis by simp
qed

theorem update_without_fields_sends_no_mutation_witness:
  "update_issue ''EST2-42'' None None None None None None None None None found_world =
     (Exit 1,
      found_world\<lparr>sent := [request_of example_credentials (issue_id_query ''EST2-42'')],
                  stderr := [''ERROR: No updates specified.'']\<rparr>)"
  using update_without_fields_sends_no_mutation [OF found_world_lookup]
  by (simp add: found_world_def example_world_def)


section \<open>Name resolution\<close>






















section \<open>Adding and removing labels\<close>






section \<open>Displayed priorities\<close>






section \<open>The list query\<close>

lemma list_world_credentials: "credentials_file list_world = Some example_credentials"
  by (simp add: list_world_def example_world_def)

text \<open>
  C8, as the code has it. With credentials in place the list operation sends one request,
  the query \<open>list_issues_query\<close>. That query contains
  \<open>issues(first: LIMIT, orderBy: updatedAt CLAUSE) {\<close>, with the given limit as the page
  size. The filters are the clauses of the five options in the order status, project,
  priority, label, assignee, an option counting only when it has a non-empty value
  (\<open>clause_of\<close>); when there is at least one they are joined by commas inside one
  \<open>filter: { ... }\<close> object, and when there is none no filter clause is emitted.
\<close>

theorem list_query_limit_and_filters:
  "(credentials_file w = Some c \<longrightarrow>
      sent (snd (list_issues status project priority label assignee limit w)) =
        sent w @ [request_of c
          (list_issues_query (cred_team_id c) status project priority label assignee limit)]) \<and>
   sublist (''issues(first: '' @ str_int limit @ '', orderBy: updatedAt'' @
              filter_clause_of (list_filters status project priority label assignee) @ '') {'')
     (list_issues_query team_id status project priority label assignee limit) \<and>
   list_filters status project priority label assignee =
     clause_of status state_filter @ clause_of project project_filter @
     clause_of priority priority_filter @ clause_of label labels_filter @
     clause_of assignee assignee_filter \<and>
   filter_clause_of (list_filters status project priority label assignee) =
     (if list_filters status project priority label assignee = [] then []
      else '', filter: { '' @
           join '', '' (list_filters status project priority label assignee) @ '' }'') \<and>
   (list_filters status project priority label assignee = [] \<longleftrightarrow>
      \<not> truthy status \<and> \<not> truthy project \<and> \<not> truthy priority \<and> \<not> truthy label \<and>
      \<not> truthy assignee)"
proof (intro conjI impI)
  assume "credentials_file w = Some c"
  then show "sent (snd (list_issues status project priority label assignee limit w)) =
        sent w @ [request_of c
          (list_issues_query (cred_team_id c) status project priority label assignee limit)]"
    by (rule list_issues_sent)
next
  show "sublist (''issues(first: '' @ str_int limit @ '', orderBy: updatedAt'' @
              filter_clause_of (list_filters status project priority label assignee) @ '') {'')
     (list_issues_query team_id status project priority label assignee limit)"
    unfolding list_issues_query_def by (rule list_query_contains)
next
  show "list_filters status project priority label assignee =
     clause_of status state_filter @ clause_of project project_filter @
     clause_of priority priority_filter @ clause_of label labels_filter @
     clause_of assignee assignee_filter"
    by (rule list_filters_clauses)
next
  show "filter_clause_of (list_filters status project priority label assignee) =
     (if list_filters status project priority label assignee = [] then []
      else '', filter: { '' @
           join '', '' (list_filters status project priority label assignee) @ '' }'')"
    by (rule filter_clause_of_list_filters)
next
  show "list_filters status project priority label assignee = [] \<longleftrightarrow>
      \<not> truthy status \<and> \<not> truthy project \<and> \<not> truthy priority \<and> \<not> truthy label \<and>
      \<not> truthy assignee"
    by (simp add: list_filters_clauses clause_of_empty)
qed

theorem list_query_limit_and_filters_witness:
  "sent (snd (list_issues (Some ''Todo'') None (Some ''high'') None None 10 list_world)) =
     [request_of example_credentials
        (list_issues_query ''T1'' (Some ''Todo'') None (Some ''high'') None None 10)] \<and>
   sublist (''issues(first: 10, orderBy: updatedAt, filter: { '' @ state_filter ''Todo'' @
              '', '' @ priority_filter ''high'' @ '' }) {'')
     (list_issues_query ''T1'' (Some ''Todo'') None (Some ''high'') None None 10) \<and>
   priority_filter ''high'' = ''priority: { eq: 2 }'' \<and>
   sublist ''issues(first: 25, orderBy: updatedAt) {''
     (list_issues_query ''T1'' None None None None None 25)"
proof -
  note inst = list_query_limit_and_filters
  have "sent (snd (list_issues (Some ''Todo'') None (Some ''high'') None None 10 list_world)) =
     [request_of example_credentials
        (list_issues_query ''T1'' (Some ''Todo'') None (Some ''high'') None None 10)]"
    using inst [THEN conjunct1, THEN mp, OF list_world_credentials,
        of "Some ''Todo''" None "Some ''high''" None None 10]
    by (simp add: list_world_def example_world_def example_credentials_def)
  moreover have filters: "filter_clause_of (list_filters (Some ''Todo'') None (Some ''high'') None None) =
      '', filter: { '' @ state_filter ''Todo'' @ '', '' @ priority_filter ''high'' @ '' }''"
    using inst [THEN conjunct2, THEN conjunct2, THEN conjunct1,
        of "Some ''Todo''" None "Some ''high''" None None]
      inst [THEN conjunct2, THEN conjunct2, THEN conjunct2, THEN conjunct1,
        of "Some ''Todo''" None "Some ''high''" None None]
    by (simp add: clause_of_def)
  moreover have "sublist (''issues(first: 10, orderBy: updatedAt, filter: { '' @ state_filter ''Todo'' @
              '', '' @ priority_filter ''high'' @ '' }) {'')
     (list_issues_query ''T1'' (Some ''Todo'') None (Some ''high'') None None 10)"
    using inst [THEN conjunct2, THEN conjunct1,
        of 10 "Some ''Todo''" None "Some ''high''" None None "''T1''"]
    by (simp add: filters str_int_def str_nat.simps digit_char_def)
  moreover have "priority_filter ''high'' = ''priority: { eq: 2 }''"
    by (simp add: priority_filter_def priority_value_def PRIORITY_MAP_def lower_def
        lower_char_def str_int_def str_nat.simps digit_char_def)
  moreover have "filter_clause_of (list_filters None None None None None) = []"
    using inst [THEN conjunct2, THEN conjunct2, THEN conjunct1, of None None None None None]
      inst [THEN conjunct2, THEN conjunct2, THEN conjunct2, THEN conjunct1,
        of None None None None None]
    by (simp add: clause_of_def)
  then have "sublist ''issues(first: 25, orderBy: updatedAt) {''
     (list_issues_query ''T1'' None None None None None 25)"
    using inst [THEN conjunct2, THEN conjunct1, of 25 None None None None None "''T1''"]
    by (simp add: str_int_def str_nat.simps digit_char_def)
  ultimately show ?thesis by simp
qed

text \<open>
  The claim as stated fails for an option that is provided with an empty value: the status
  option given as the empty string adds no clause, and the query is the one of a call
  without any option.
\<close>

theorem list_query_limit_and_filters_counterexample:
  "list_filters (Some []) None None None None = [] \<and>
   filter_clause_of (list_filters (Some []) (Some []) None (Some []) (Some [])) = [] \<and>
   list_issues_query ''T1'' (Some []) None None None None 25 =
     list_issues_query ''T1'' None None None None None 25"
  by (simp add: list_issues_query_def list_filters_def opt_filter_def filter_clause_of_def)

section \<open>Escaped text in queries and mutations\<close>







end
